theory Spec2Isabelle
  imports Complex_Main "HOL-Library.Sublist" "HOL-Library.AList" "HOL-Library.Product_Lexorder"
begin

section \<open>Python values\<close>

text \<open>
  The Lambda handler works on what \<^verbatim>\<open>json.loads\<close> returns: \<^verbatim>\<open>None\<close>, booleans,
  integers, floats, strings, lists and dictionaries. A dictionary is an association list in
  insertion order, read with \<open>map_of\<close>. Python floats are idealised as exact rationals:
  rounding, infinities and NaN are outside this model, and so is the text Python prints for a
  float.
\<close>

datatype jval =
    JNull
  | JBool bool
  | JInt int
  | JFloat rat
  | JStr string
  | JArr "jval list"
  | JObj "(string \<times> jval) list"

type_synonym dict = "(string \<times> jval) list"

datatype py_error = TypeError | AttributeError | KeyError

text \<open>
  Three builtins of Python are parameters of the model: \<^verbatim>\<open>str(v)\<close> as an f-string
  renders a value, \<^verbatim>\<open>float(s)\<close> on a string (\<open>None\<close> is \<^verbatim>\<open>ValueError\<close>), and
  the fixed-point format \<^verbatim>\<open>{x:.nf}\<close>.
\<close>

record builtins =
  str_of :: "jval \<Rightarrow> string"
  float_of :: "string \<Rightarrow> rat option"
  fixed_of :: "nat \<Rightarrow> rat \<Rightarrow> string"

text \<open>\<^verbatim>\<open>d.get(k)\<close>: the value, or \<^verbatim>\<open>None\<close> for an absent key.\<close>

definition py_get :: "dict \<Rightarrow> string \<Rightarrow> jval" where
  "py_get d k = (case map_of d k of None \<Rightarrow> JNull | Some v \<Rightarrow> v)"

text \<open>\<^verbatim>\<open>k in d\<close> for a dictionary \<open>d\<close>.\<close>

definition has_key :: "dict \<Rightarrow> string \<Rightarrow> bool" where
  "has_key d k = (map_of d k \<noteq> None)"

text \<open>Truthiness, as \<^verbatim>\<open>not v\<close> and \<^verbatim>\<open>if v:\<close> read it.\<close>

fun truthy :: "jval \<Rightarrow> bool" where
  "truthy JNull = False"
| "truthy (JBool b) = b"
| "truthy (JInt i) = (i \<noteq> 0)"
| "truthy (JFloat r) = (r \<noteq> 0)"
| "truthy (JStr s) = (s \<noteq> [])"
| "truthy (JArr xs) = (xs \<noteq> [])"
| "truthy (JObj kvs) = (kvs \<noteq> [])"

text \<open>
  \<^verbatim>\<open>isinstance(v, (int, float))\<close> holds of integers, floats and booleans
  (\<^verbatim>\<open>bool\<close> is a subclass of \<^verbatim>\<open>int\<close>); \<open>num_of\<close> is the number such a value
  stands for.
\<close>

fun num_of :: "jval \<Rightarrow> rat option" where
  "num_of (JBool b) = Some (if b then 1 else 0)"
| "num_of (JInt i) = Some (of_int i)"
| "num_of (JFloat r) = Some r"
| "num_of _ = None"

text \<open>
  \<^verbatim>\<open>a == b\<close> where one side is a scalar: numbers compare by value across
  \<^verbatim>\<open>bool\<close>, \<^verbatim>\<open>int\<close> and \<^verbatim>\<open>float\<close>; a number never equals a non-number; other
  values compare structurally.
\<close>

definition py_eq :: "jval \<Rightarrow> jval \<Rightarrow> bool" where
  "py_eq a b =
     (case (num_of a, num_of b) of
        (Some x, Some y) \<Rightarrow> x = y
      | (None, None) \<Rightarrow> a = b
      | _ \<Rightarrow> False)"

text \<open>\<^verbatim>\<open>v in xs\<close> for a list \<open>xs\<close>.\<close>

definition py_in :: "jval \<Rightarrow> jval list \<Rightarrow> bool" where
  "py_in v xs = list_ex (py_eq v) xs"

text \<open>A value inside an f-string: a string is spliced as it is.\<close>

definition fstr :: "builtins \<Rightarrow> jval \<Rightarrow> string" where
  "fstr py v = (case v of JStr s \<Rightarrow> s | _ \<Rightarrow> str_of py v)"

section \<open>Validation (\<^verbatim>\<open>validate_record\<close>)\<close>

definition EXPECTED_RANGES_PER_LOCATION :: "(string \<times> (string \<times> rat \<times> rat) list) list" where
  "EXPECTED_RANGES_PER_LOCATION =
    [(''loc_1'',
        [(''temperature'', 10, 50),
         (''humidity'', 30, 90),
         (''water_level'', 1 / 2, 3),
         (''nitrogen'', 80, 150),
         (''phosphorus'', 40, 80),
         (''potassium'', 40, 80),
         (''ph'', 6, 8)]),
     (''loc_2'',
        [(''temperature'', 15, 55),
         (''humidity'', 25, 80),
         (''water_level'', 3 / 10, 5 / 2),
         (''nitrogen'', 70, 140),
         (''phosphorus'', 30, 70),
         (''potassium'', 30, 70),
         (''ph'', 13 / 2, 17 / 2)]),
     (''loc_3'',
        [(''temperature'', 12, 52),
         (''humidity'', 28, 85),
         (''water_level'', 2 / 5, 14 / 5),
         (''nitrogen'', 75, 145),
         (''phosphorus'', 35, 75),
         (''potassium'', 35, 75),
         (''ph'', 31 / 5, 41 / 5)])]"

datatype status = VALID | WARNING | INVALID

definition extreme_values :: "jval list" where
  "extreme_values =
     [JInt 0, JInt 9999, JInt (- 9999), JStr ''0'', JStr ''9999'', JStr ''-9999'',
      JStr ''null'', JStr ''NULL'', JStr ''NaN'', JNull]"

text \<open>
  The range check of one numeric value \<open>x\<close>, lines 119 to 126: it appends to the errors or
  to the warnings.
\<close>

definition range_check ::
  "string \<Rightarrow> rat \<Rightarrow> rat \<Rightarrow> rat \<Rightarrow> string list \<times> string list \<Rightarrow> string list \<times> string list"
where
  "range_check sensor_name min_val max_val x ew =
     (if \<not> (min_val \<le> x \<and> x \<le> max_val) then
        (let buffer = (max_val - min_val) * (1 / 10) in
         if min_val - buffer \<le> x \<and> x \<le> max_val + buffer
         then (fst ew, snd ew @ [''sensor_data:'' @ sensor_name @ ''_near_threshold''])
         else (fst ew @ [''sensor_data:'' @ sensor_name @ ''_out_of_range''], snd ew))
      else ew)"

text \<open>
  One pass of the loop over \<^verbatim>\<open>location_ranges.items()\<close>. The state is the quantity map
  (a conversion writes the number back into it), the errors and the warnings.
\<close>

definition validate_sensor ::
  "builtins \<Rightarrow> string \<times> rat \<times> rat \<Rightarrow> dict \<times> string list \<times> string list
     \<Rightarrow> dict \<times> string list \<times> string list"
where
  "validate_sensor py item st =
     (case item of (sensor_name, min_val, max_val) \<Rightarrow>
      case st of (sensor_data, errors, warnings) \<Rightarrow>
      let val = py_get sensor_data sensor_name in
      if py_in val extreme_values then
        (sensor_data, errors @ [''sensor_data:'' @ sensor_name @ ''_extreme_value''], warnings)
      else if val = JNull then
        (sensor_data, errors @ [''sensor_data:'' @ sensor_name @ ''_missing''], warnings)
      else
        (case num_of val of
           Some x \<Rightarrow>
             (case range_check sensor_name min_val max_val x (errors, warnings) of
                (errors', warnings') \<Rightarrow> (sensor_data, errors', warnings'))
         | None \<Rightarrow>
             (case (case val of JStr s \<Rightarrow> float_of py s | _ \<Rightarrow> None) of
                Some converted_val \<Rightarrow>
                  (case range_check sensor_name min_val max_val converted_val
                          (errors, warnings @ [''sensor_data:'' @ sensor_name @ ''_type_converted''])
                   of (errors', warnings') \<Rightarrow>
                     (AList.update sensor_name (JFloat converted_val) sensor_data,
                      errors', warnings'))
              | None \<Rightarrow>
                  (sensor_data,
                   errors @ [''sensor_data:'' @ sensor_name @ ''_invalid_type''], warnings))))"

definition validate_sensors ::
  "builtins \<Rightarrow> (string \<times> rat \<times> rat) list \<Rightarrow> dict \<times> string list \<times> string list
     \<Rightarrow> dict \<times> string list \<times> string list"
where
  "validate_sensors py location_ranges st = foldl (\<lambda>s item. validate_sensor py item s) st location_ranges"

text \<open>
  The cross-check against the weather service, lines 129 to 137. \<^verbatim>\<open>"temperature_2m" in
  weather_data\<close> is a key test on a dictionary, a substring test on a string, an element test
  on a list and a \<^verbatim>\<open>TypeError\<close> on anything else; indexing a string or a list with a
  string is a \<^verbatim>\<open>TypeError\<close>; so is subtracting two values that are not both numbers.
\<close>

definition cross_validate ::
  "builtins \<Rightarrow> dict \<Rightarrow> dict \<Rightarrow> string list \<Rightarrow> py_error + string list"
where
  "cross_validate py data sensor_data warnings =
     (if has_key sensor_data ''temperature'' \<and> has_key data ''weather_data'' then
        (case py_get data ''weather_data'' of
           JObj weather_data \<Rightarrow>
             if has_key weather_data ''temperature_2m'' then
               (let sensor_temp = py_get sensor_data ''temperature'';
                    weather_temp = py_get weather_data ''temperature_2m''
                in case (num_of sensor_temp, num_of weather_temp) of
                     (Some a, Some b) \<Rightarrow>
                       if \<bar>a - b\<bar> > 15
                       then Inr (warnings @ [''temperature_mismatch:'' @ fstr py sensor_temp
                                               @ ''vs'' @ fstr py weather_temp])
                       else Inr warnings
                   | _ \<Rightarrow> Inl TypeError)
             else Inr warnings
         | JStr s \<Rightarrow> if sublist ''temperature_2m'' s then Inl TypeError else Inr warnings
         | JArr xs \<Rightarrow> if py_in (JStr ''temperature_2m'') xs then Inl TypeError else Inr warnings
         | _ \<Rightarrow> Inl TypeError)
      else Inr warnings)"

definition required_keys :: "string list" where
  "required_keys = [''event_id'', ''timestamp'', ''sensor_data'', ''weather_data'', ''location'']"

text \<open>The loop over the required top-level keys, lines 82 to 85.\<close>

definition top_level_errors :: "dict \<Rightarrow> string list" where
  "top_level_errors data =
     map (\<lambda>key. ''missing_top_level_key:'' @ key)
         (filter (\<lambda>key. \<not> has_key data key) required_keys)"

text \<open>
  \<^verbatim>\<open>validate_record(data)\<close> returns the status, the errors and the warnings, or raises.
  It may rewrite entries of \<^verbatim>\<open>data["sensor_data"]\<close> in place, so the model returns the
  record as the call leaves it, too. A \<^verbatim>\<open>loc_id\<close> that is a non-empty list or dictionary
  cannot be hashed for the table lookup; a non-empty \<^verbatim>\<open>sensor_data\<close> that is no
  dictionary has no \<^verbatim>\<open>get\<close>.
\<close>

definition validate_record ::
  "builtins \<Rightarrow> dict \<Rightarrow> py_error + (status \<times> string list \<times> string list \<times> dict)"
where
  "validate_record py data =
     (let loc_id = py_get data ''loc_id'' in
      if \<not> truthy loc_id then Inr (INVALID, [''missing_loc_id''], [], data)
      else
        (case loc_id of
           JArr _ \<Rightarrow> Inl TypeError
         | JObj _ \<Rightarrow> Inl TypeError
         | _ \<Rightarrow>
           (case (case loc_id of JStr s \<Rightarrow> map_of EXPECTED_RANGES_PER_LOCATION s | _ \<Rightarrow> None) of
              None \<Rightarrow> Inr (INVALID, [''invalid_loc_id:'' @ fstr py loc_id], [], data)
            | Some location_ranges \<Rightarrow>
                (let errors = top_level_errors data;
                     sd = py_get data ''sensor_data''
                 in if \<not> truthy sd then Inr (INVALID, errors @ [''missing_sensor_data''], [], data)
                    else
                      (case sd of
                         JObj sensor_data0 \<Rightarrow>
                           (case validate_sensors py location_ranges (sensor_data0, errors, []) of
                              (sensor_data, errors', warnings) \<Rightarrow>
                                (case cross_validate py data sensor_data warnings of
                                   Inl e \<Rightarrow> Inl e
                                 | Inr warnings' \<Rightarrow>
                                     Inr (if errors' \<noteq> [] then INVALID
                                          else if warnings' \<noteq> [] then WARNING else VALID,
                                          errors', warnings',
                                          AList.update ''sensor_data'' (JObj sensor_data) data)))
                       | _ \<Rightarrow> Inl AttributeError)))))"


text \<open>The codes among them that the loop does append, and the quantities of the table.\<close>

definition live_codes :: "string \<Rightarrow> string set" where
  "live_codes sensor_name =
     {''sensor_data:'' @ sensor_name @ ''_extreme_value'',
      ''sensor_data:'' @ sensor_name @ ''_invalid_type'',
      ''sensor_data:'' @ sensor_name @ ''_out_of_range''}"

definition sensor_names :: "string list" where
  "sensor_names = [''temperature'', ''humidity'', ''water_level'', ''nitrogen'', ''phosphorus'',
                   ''potassium'', ''ph'']"

section \<open>Alert rules (\<^verbatim>\<open>handle_alerts\<close>)\<close>

datatype priority = CRITICAL | HIGH | MEDIUM

record alert =
  alert_type :: string
  priority :: priority
  description :: string

text \<open>
  The classification of the quantity-level errors, lines 164 to 175. Python collects the
  classes in a set, whose iteration order is not fixed; here they are kept in the order of
  their first occurrence, without repetition.
\<close>

definition classify_error :: "string \<Rightarrow> string option" where
  "classify_error e =
     (if sublist ''extreme_value'' e then Some ''sensor_failure''
      else if sublist ''missing'' e then Some ''sensor_disconnected''
      else if sublist ''out_of_range'' e then Some ''sensor_malfunction''
      else None)"

definition error_types :: "string list \<Rightarrow> string list" where
  "error_types errors =
     remdups (List.map_filter classify_error (filter (prefix ''sensor_data'') errors))"

definition degree_sign :: string where
  "degree_sign = [CHR 0xC2, CHR 0xAC, CHR 0xE2, CHR 0x88, CHR 0x9E]"

definition temperature_alerts :: "builtins \<Rightarrow> string \<Rightarrow> dict \<Rightarrow> alert list" where
  "temperature_alerts py loc sensor_data =
     (case num_of (py_get sensor_data ''temperature'') of
        None \<Rightarrow> []
      | Some temp \<Rightarrow>
          if temp > 35 then
            [\<lparr>alert_type = ''High Temperature'', priority = HIGH,
              description = ''High temperature warning: '' @ fixed_of py 1 temp @ degree_sign
                            @ ''C at '' @ loc\<rparr>]
          else if temp < 5 then
            [\<lparr>alert_type = ''Low Temperature'', priority = HIGH,
              description = ''Low temperature warning: '' @ fixed_of py 1 temp @ degree_sign
                            @ ''C at '' @ loc\<rparr>]
          else [])"

definition water_level_alerts :: "builtins \<Rightarrow> string \<Rightarrow> dict \<Rightarrow> alert list" where
  "water_level_alerts py loc sensor_data =
     (case num_of (py_get sensor_data ''water_level'') of
        None \<Rightarrow> []
      | Some water_level \<Rightarrow>
          if water_level < 1 then
            [\<lparr>alert_type = ''Low Water Level'', priority = HIGH,
              description = ''Low water level alert: '' @ fixed_of py 2 water_level
                            @ ''m at '' @ loc\<rparr>]
          else if water_level > 5 / 2 then
            [\<lparr>alert_type = ''High Water Level'', priority = MEDIUM,
              description = ''High water level: '' @ fixed_of py 2 water_level
                            @ ''m at '' @ loc\<rparr>]
          else [])"

definition ph_alerts :: "builtins \<Rightarrow> string \<Rightarrow> dict \<Rightarrow> alert list" where
  "ph_alerts py loc sensor_data =
     (case num_of (py_get sensor_data ''ph'') of
        None \<Rightarrow> []
      | Some ph_level \<Rightarrow>
          if ph_level < 6 \<or> ph_level > 15 / 2 then
            [\<lparr>alert_type = ''Soil pH Warning'',
              priority = (if ph_level < 11 / 2 \<or> ph_level > 8 then HIGH else MEDIUM),
              description = ''Soil pH out of optimal range: '' @ fixed_of py 1 ph_level
                            @ '' at '' @ loc\<rparr>]
          else [])"

text \<open>
  One nutrient of the loop at lines 230 to 241. The range table is read only when the value is
  a number, and the lookup raises when \<^verbatim>\<open>loc_id\<close> is no key of the table.
\<close>

definition nutrient_alerts ::
  "builtins \<Rightarrow> jval \<Rightarrow> string \<Rightarrow> dict \<Rightarrow> string \<Rightarrow> py_error + alert list"
where
  "nutrient_alerts py loc_id loc sensor_data nutrient =
     (case num_of (py_get sensor_data nutrient) of
        None \<Rightarrow> Inr []
      | Some v \<Rightarrow>
          (case loc_id of
             JArr _ \<Rightarrow> Inl TypeError
           | JObj _ \<Rightarrow> Inl TypeError
           | _ \<Rightarrow>
             (case (case loc_id of JStr s \<Rightarrow> map_of EXPECTED_RANGES_PER_LOCATION s | _ \<Rightarrow> None) of
                None \<Rightarrow> Inl KeyError
              | Some ranges \<Rightarrow>
                  (case map_of ranges nutrient of
                     None \<Rightarrow> Inl KeyError
                   | Some (min_val, max_val) \<Rightarrow>
                       if v < min_val * (8 / 10) then
                         Inr [\<lparr>alert_type = ''Low Nutrient'', priority = MEDIUM,
                               description = ''Low '' @ nutrient @ '' level: '' @ fixed_of py 1 v
                                             @ '' at '' @ loc\<rparr>]
                       else Inr []))))"

fun nutrients_loop ::
  "builtins \<Rightarrow> jval \<Rightarrow> string \<Rightarrow> dict \<Rightarrow> string list \<Rightarrow> alert list \<Rightarrow> py_error + alert list"
where
  "nutrients_loop py loc_id loc sensor_data [] alerts = Inr alerts"
| "nutrients_loop py loc_id loc sensor_data (nutrient # rest) alerts =
     (case nutrient_alerts py loc_id loc sensor_data nutrient of
        Inl e \<Rightarrow> Inl e
      | Inr new \<Rightarrow> nutrients_loop py loc_id loc sensor_data rest (alerts @ new))"

text \<open>
  \<^verbatim>\<open>handle_alerts(record, status, errors, warnings)\<close>. The warnings are not read.
  \<^verbatim>\<open>record.get("sensor_data", {})\<close> is used only under the status VALID or WARNING, where
  anything but a dictionary has no \<^verbatim>\<open>get\<close>.
\<close>

definition handle_alerts :: "builtins \<Rightarrow> dict \<Rightarrow> status \<Rightarrow> string list \<Rightarrow> py_error + alert list" where
  "handle_alerts py record status errors =
     (let loc_id = (if has_key record ''loc_id'' then py_get record ''loc_id'' else JStr ''unknown'');
          loc = fstr py loc_id;
          sd = (if has_key record ''sensor_data'' then py_get record ''sensor_data'' else JObj []);
          alerts =
            (if status = INVALID then
               map (\<lambda>error_type.
                      \<lparr>alert_type = ''Sensor Failure'', priority = CRITICAL,
                       description = ''Critical sensor issue detected at '' @ loc @ '': ''
                                     @ error_type\<rparr>)
                   (error_types errors)
             else [])
      in if status = VALID \<or> status = WARNING then
           (case sd of
              JObj sensor_data \<Rightarrow>
                nutrients_loop py loc_id loc sensor_data [''nitrogen'', ''phosphorus'', ''potassium'']
                  (alerts @ temperature_alerts py loc sensor_data
                          @ water_level_alerts py loc sensor_data
                          @ ph_alerts py loc sensor_data)
            | _ \<Rightarrow> Inl AttributeError)
         else Inr alerts)"

section \<open>Alert throttling (\<^verbatim>\<open>check_and_send_alert\<close>)\<close>

text \<open>
  Instants are microseconds, the resolution of \<^verbatim>\<open>datetime\<close>, and a \<^verbatim>\<open>timedelta\<close> is
  a difference of instants. The module holds one \<^verbatim>\<open>alert_state\<close> of two dictionaries
  keyed by \<^verbatim>\<open>"{loc_id}|{alert_type}"\<close>, both empty when the module is loaded.
\<close>

record alert_state =
  last_sent :: "string \<rightharpoonup> int"
  consecutive_counts :: "string \<rightharpoonup> int"

definition initial_alert_state :: alert_state where
  "initial_alert_state = \<lparr>last_sent = Map.empty, consecutive_counts = Map.empty\<rparr>"

definition minutes :: "int \<Rightarrow> int" where
  "minutes n = n * 60 * 1000000"

definition seconds :: "int \<Rightarrow> int" where
  "seconds n = n * 1000000"

definition ALERT_INTERVAL :: int where
  "ALERT_INTERVAL = minutes 5"

definition CONSECUTIVE_RECORDS_THRESHOLD :: int where
  "CONSECUTIVE_RECORDS_THRESHOLD = 1"

definition alert_key :: "string \<Rightarrow> alert \<Rightarrow> string" where
  "alert_key loc_id a = loc_id @ ''|'' @ alert_type a"

text \<open>
  The body of \<^verbatim>\<open>check_and_send_alert\<close> with the two configuration constants it reads as
  arguments and the clock reading \<open>now\<close> as input. The result is the returned flag, which
  is \<open>True\<close> exactly when \<^verbatim>\<open>send_alert\<close> was called, and the state left behind.
  \<^verbatim>\<open>send_alert\<close> catches the failures of the publish call itself.
\<close>

definition check_and_send_alert_cfg ::
  "int \<Rightarrow> int \<Rightarrow> alert \<Rightarrow> string \<Rightarrow> int \<Rightarrow> alert_state \<Rightarrow> bool \<times> alert_state"
where
  "check_and_send_alert_cfg interval threshold a loc_id now s =
     (let k = alert_key loc_id a in
      if priority a = CRITICAL then (True, s\<lparr>last_sent := (last_sent s)(k \<mapsto> now)\<rparr>)
      else if (case last_sent s k of Some t \<Rightarrow> now - t < interval | None \<Rightarrow> False)
      then (False, s)
      else
        (let count = (case consecutive_counts s k of Some c \<Rightarrow> c | None \<Rightarrow> 0) + 1 in
         if count \<ge> threshold then
           (True, s\<lparr>last_sent := (last_sent s)(k \<mapsto> now),
                    consecutive_counts := (consecutive_counts s)(k \<mapsto> 0)\<rparr>)
         else (False, s\<lparr>consecutive_counts := (consecutive_counts s)(k \<mapsto> count)\<rparr>)))"

definition check_and_send_alert :: "alert \<Rightarrow> string \<Rightarrow> int \<Rightarrow> alert_state \<Rightarrow> bool \<times> alert_state" where
  "check_and_send_alert = check_and_send_alert_cfg ALERT_INTERVAL CONSECUTIVE_RECORDS_THRESHOLD"

text \<open>
  Successive calls, one per clock reading, for the same alert and location: the flags returned,
  in order, and the final state.
\<close>

fun repeat_alert :: "alert \<Rightarrow> string \<Rightarrow> int list \<Rightarrow> alert_state \<Rightarrow> bool list \<times> alert_state" where
  "repeat_alert a loc_id [] s = ([], s)"
| "repeat_alert a loc_id (now # later) s =
     (case check_and_send_alert a loc_id now s of
        (sent, s') \<Rightarrow>
          (case repeat_alert a loc_id later s' of (flags, s'') \<Rightarrow> (sent # flags, s'')))"

section \<open>The batch handler (\<^verbatim>\<open>lambda_handler\<close>)\<close>

text \<open>
  A Kinesis record either fails to decode (base64, UTF-8 or JSON) or decodes to a value. Of
  the clock readings, the one of the clean-up and the one in each call of
  \<^verbatim>\<open>check_and_send_alert\<close> decide something; \<open>clock n\<close> is the \<open>n\<close>-th of these.
  Whether the clean-up runs is decided by \<^verbatim>\<open>random.random() < 0.1\<close>, an input here.
  The validation results written onto the record and its upload to S3 touch neither the
  counters nor the throttle state, and \<^verbatim>\<open>upload_to_s3\<close> catches its own failures: they
  are left out.
\<close>

datatype kinesis_record = Undecodable | Decoded jval

record handler_state =
  throttle :: alert_state
  tick :: nat
  published :: "(string \<times> alert) list"
  processed_count :: nat
  error_count :: nat
  alert_count :: nat

definition cleanup_alert_state :: "int \<Rightarrow> alert_state \<Rightarrow> alert_state" where
  "cleanup_alert_state current_time s =
     \<lparr>last_sent = (\<lambda>key. case last_sent s key of
                             Some last_time \<Rightarrow>
                               if current_time - last_time > seconds 3600 then None
                               else Some last_time
                           | None \<Rightarrow> None),
      consecutive_counts = (\<lambda>key. case last_sent s key of
                             Some last_time \<Rightarrow>
                               if current_time - last_time > seconds 3600 then None
                               else consecutive_counts s key
                           | None \<Rightarrow> consecutive_counts s key)\<rparr>"

text \<open>
  The loop over the alerts of one record, lines 457 to 471. A sent alert is noted with
  \<^verbatim>\<open>data["alerts_sent"].append(...)\<close>, after the key has been set to an empty list if
  it was absent: a record that arrives with an \<^verbatim>\<open>alerts_sent\<close> entry that is no list has
  no \<^verbatim>\<open>append\<close>, and the first alert sent for it raises. The flag returned is \<open>False\<close>
  when that happened; the state holds what was done until then.
\<close>

definition can_annotate :: "dict \<Rightarrow> bool" where
  "can_annotate data =
     (if has_key data ''alerts_sent''
      then (case py_get data ''alerts_sent'' of JArr _ \<Rightarrow> True | _ \<Rightarrow> False)
      else True)"

fun send_alerts ::
  "(nat \<Rightarrow> int) \<Rightarrow> string \<Rightarrow> bool \<Rightarrow> handler_state \<Rightarrow> alert list \<Rightarrow> bool \<times> handler_state"
where
  "send_alerts clock loc_id annotate hs [] = (True, hs)"
| "send_alerts clock loc_id annotate hs (a # alerts) =
     (case check_and_send_alert a loc_id (clock (tick hs)) (throttle hs) of
        (alert_sent, s') \<Rightarrow>
          (let hs' = hs\<lparr>throttle := s', tick := Suc (tick hs),
                          published := (if alert_sent then published hs @ [(loc_id, a)]
                                        else published hs)\<rparr>
           in if alert_sent \<and> \<not> annotate then (False, hs')
              else send_alerts clock loc_id annotate hs' alerts))"

text \<open>
  One pass of the loop over the records. Every exception raised while a record is processed
  is caught, and the record is counted in \<^verbatim>\<open>error_count\<close>.
\<close>

definition process_record ::
  "builtins \<Rightarrow> (nat \<Rightarrow> int) \<Rightarrow> handler_state \<Rightarrow> kinesis_record \<Rightarrow> handler_state"
where
  "process_record py clock hs r =
     (case r of
        Decoded (JObj data) \<Rightarrow>
          (case validate_record py data of
             Inl e \<Rightarrow> hs\<lparr>error_count := error_count hs + 1\<rparr>
           | Inr (status, errors, warnings, data') \<Rightarrow>
               (case handle_alerts py data' status errors of
                  Inl e \<Rightarrow> hs\<lparr>error_count := error_count hs + 1\<rparr>
                | Inr alerts \<Rightarrow>
                    (let hs1 = hs\<lparr>alert_count := alert_count hs + length alerts\<rparr>;
                         loc_id = fstr py (if has_key data' ''loc_id'' then py_get data' ''loc_id''
                                           else JStr ''unknown'')
                     in case send_alerts clock loc_id (can_annotate data') hs1 alerts of
                          (True, hs2) \<Rightarrow> hs2\<lparr>processed_count := processed_count hs2 + 1\<rparr>
                        | (False, hs2) \<Rightarrow> hs2\<lparr>error_count := error_count hs2 + 1\<rparr>)))
      | _ \<Rightarrow> hs\<lparr>error_count := error_count hs + 1\<rparr>)"

record summary =
  processed_records :: nat
  error_records :: nat
  total_alerts_generated :: nat

text \<open>
  \<^verbatim>\<open>lambda_handler(event, context)\<close> on the records of the event, started in the throttle
  state \<open>s\<close> that earlier invocations left in the module. It returns the body of the response;
  the model also returns the throttle state and the alerts handed to \<^verbatim>\<open>send_alert\<close>.
\<close>

definition lambda_handler ::
  "builtins \<Rightarrow> (nat \<Rightarrow> int) \<Rightarrow> bool \<Rightarrow> kinesis_record list \<Rightarrow> alert_state
     \<Rightarrow> summary \<times> alert_state \<times> (string \<times> alert) list"
where
  "lambda_handler py clock cleanup records s =
     (let hs0 = (if cleanup
                 then \<lparr>throttle = cleanup_alert_state (clock 0) s, tick = 1, published = [],
                       processed_count = 0, error_count = 0, alert_count = 0\<rparr>
                 else \<lparr>throttle = s, tick = 0, published = [],
                       processed_count = 0, error_count = 0, alert_count = 0\<rparr>);
          hs = foldl (process_record py clock) hs0 records
      in (\<lparr>processed_records = processed_count hs, error_records = error_count hs,
           total_alerts_generated = alert_count hs\<rparr>,
          throttle hs, published hs))"

text \<open>
  The candidate alerts of one record: what \<^verbatim>\<open>handle_alerts\<close> returns for it, and none when
  the record does not decode to a dictionary or when validation or the rules raise.
\<close>

definition candidate_alerts :: "builtins \<Rightarrow> kinesis_record \<Rightarrow> alert list" where
  "candidate_alerts py r =
     (case r of
        Decoded (JObj data) \<Rightarrow>
          (case validate_record py data of
             Inl e \<Rightarrow> []
           | Inr (status, errors, warnings, data') \<Rightarrow>
               (case handle_alerts py data' status errors of
                  Inl e \<Rightarrow> []
                | Inr alerts \<Rightarrow> alerts))
      | _ \<Rightarrow> [])"

section \<open>An instance of the builtins\<close>

text \<open>
  To run the model on a concrete reading, the builtins are instantiated for plain decimal
  numerals: \<^verbatim>\<open>float\<close> reads an optional sign, digits and an optional fraction;
  numbers print in decimal notation.
\<close>

definition digit_chars :: string where
  "digit_chars = ''0123456789''"

definition is_digit :: "char \<Rightarrow> bool" where
  "is_digit c = (c \<in> set digit_chars)"

definition digit_val :: "char \<Rightarrow> nat" where
  "digit_val c = (case map_of (zip digit_chars [0, 1, 2, 3, 4, 5, 6, 7, 8, 9]) c of
                    Some d \<Rightarrow> d | None \<Rightarrow> 0)"

definition nat_of_digits :: "string \<Rightarrow> nat" where
  "nat_of_digits ds = foldl (\<lambda>n c. 10 * n + digit_val c) 0 ds"

definition unsigned_of :: "string \<Rightarrow> rat option" where
  "unsigned_of s =
     (let ip = takeWhile is_digit s; rest = dropWhile is_digit s in
      if ip = [] then None
      else case rest of
             [] \<Rightarrow> Some (of_nat (nat_of_digits ip))
           | c # fp \<Rightarrow>
               if c = CHR ''.'' \<and> fp \<noteq> [] \<and> list_all is_digit fp
               then Some (of_nat (nat_of_digits ip) + of_nat (nat_of_digits fp) / 10 ^ length fp)
               else None)"

definition decimal_float :: "string \<Rightarrow> rat option" where
  "decimal_float s =
     (case s of
        [] \<Rightarrow> None
      | c # r \<Rightarrow>
          if c = CHR ''-'' then map_option uminus (unsigned_of r)
          else if c = CHR ''+'' then unsigned_of r
          else unsigned_of s)"

fun show_nat :: "nat \<Rightarrow> string" where
  "show_nat n = (if n < 10 then [digit_chars ! n] else show_nat (n div 10) @ [digit_chars ! (n mod 10)])"

declare show_nat.simps [simp del]

definition show_int :: "int \<Rightarrow> string" where
  "show_int i = (if i < 0 then ''-'' @ show_nat (nat (- i)) else show_nat (nat i))"

definition decimal_fixed :: "nat \<Rightarrow> rat \<Rightarrow> string" where
  "decimal_fixed n x =
     (let k = \<lfloor>\<bar>x\<bar> * 10 ^ n + 1 / 2\<rfloor>;
          ip = show_nat (nat (k div 10 ^ n));
          fp = show_nat (nat (k mod 10 ^ n))
      in (if x < 0 then ''-'' else []) @ ip
         @ (if n = 0 then [] else ''.'' @ replicate (n - length fp) (CHR ''0'') @ fp))"

definition decimal_str :: "jval \<Rightarrow> string" where
  "decimal_str v =
     (case v of
        JNull \<Rightarrow> ''None''
      | JBool b \<Rightarrow> (if b then ''True'' else ''False'')
      | JInt i \<Rightarrow> show_int i
      | JFloat x \<Rightarrow>
          (case find (\<lambda>n. of_int \<lfloor>x * 10 ^ n\<rfloor> = x * 10 ^ n)
                  [1, 2, 3, 4, 5, 6, 7, 8, 9, 10, 11, 12, 13, 14, 15, 16] of
             Some n \<Rightarrow> decimal_fixed n x
           | None \<Rightarrow> decimal_fixed 17 x)
      | JStr s \<Rightarrow> s
      | JArr xs \<Rightarrow> ''[...]''
      | JObj kvs \<Rightarrow> ''{...}'')"

definition decimal_builtins :: builtins where
  "decimal_builtins = \<lparr>str_of = decimal_str, float_of = decimal_float, fixed_of = decimal_fixed\<rparr>"

section \<open>The warehouse load (\<^verbatim>\<open>s3-to-redshift.py\<close>)\<close>

subsection \<open>SQL values and conditions\<close>

text \<open>
  A column value is \<open>None\<close> for \<^verbatim>\<open>NULL\<close>. A condition has three truth values, \<open>None\<close>
  being unknown; \<^verbatim>\<open>WHERE\<close> and \<^verbatim>\<open>ON\<close> keep a row when the condition is true.
  Numeric columns are idealised as rationals.
\<close>

type_synonym sql_bool = "bool option"

definition holds :: "sql_bool \<Rightarrow> bool" where
  "holds c = (c = Some True)"

definition sql_eq :: "'a option \<Rightarrow> 'a option \<Rightarrow> sql_bool" where
  "sql_eq a b = (case (a, b) of (Some x, Some y) \<Rightarrow> Some (x = y) | _ \<Rightarrow> None)"

definition sql_gt :: "'a::linorder option \<Rightarrow> 'a option \<Rightarrow> sql_bool" where
  "sql_gt a b = (case (a, b) of (Some x, Some y) \<Rightarrow> Some (x > y) | _ \<Rightarrow> None)"

definition sql_not :: "sql_bool \<Rightarrow> sql_bool" where
  "sql_not c = map_option Not c"

definition sql_and :: "sql_bool \<Rightarrow> sql_bool \<Rightarrow> sql_bool" where
  "sql_and a b =
     (if a = Some False \<or> b = Some False then Some False
      else if a = Some True \<and> b = Some True then Some True
      else None)"

definition sql_or :: "sql_bool \<Rightarrow> sql_bool \<Rightarrow> sql_bool" where
  "sql_or a b =
     (if a = Some True \<or> b = Some True then Some True
      else if a = Some False \<and> b = Some False then Some False
      else None)"

definition sql_all :: "sql_bool list \<Rightarrow> sql_bool" where
  "sql_all cs = foldr sql_and cs (Some True)"

definition is_not_null :: "'a option \<Rightarrow> sql_bool" where
  "is_not_null a = Some (a \<noteq> None)"

text \<open>\<^verbatim>\<open>x IN (SELECT ...)\<close> is the disjunction of the comparisons with each selected value.\<close>

definition sql_in :: "'a option \<Rightarrow> 'a option list \<Rightarrow> sql_bool" where
  "sql_in x vs = foldr (\<lambda>v acc. sql_or (sql_eq x v) acc) vs (Some False)"

definition sql_not_exists :: "'r list \<Rightarrow> ('r \<Rightarrow> sql_bool) \<Rightarrow> sql_bool" where
  "sql_not_exists rows cond = Some (\<not> list_ex (\<lambda>r. holds (cond r)) rows)"

text \<open>\<^verbatim>\<open>MAX\<close> skips \<^verbatim>\<open>NULL\<close> and is \<^verbatim>\<open>NULL\<close> when nothing is left.\<close>

definition sql_max_step :: "'a::linorder option \<Rightarrow> 'a option \<Rightarrow> 'a option" where
  "sql_max_step acc v =
     (case v of None \<Rightarrow> acc
      | Some x \<Rightarrow> (case acc of None \<Rightarrow> Some x | Some m \<Rightarrow> Some (max m x)))"

definition sql_max :: "'a::linorder option list \<Rightarrow> 'a option" where
  "sql_max vs = foldl sql_max_step None vs"

subsection \<open>Tables\<close>

text \<open>
  A timestamp is year, month, day, hour, minute and the microseconds within the minute,
  ordered lexicographically.
\<close>

type_synonym timestamp = "nat \<times> nat \<times> nat \<times> nat \<times> nat \<times> nat"

definition epoch :: timestamp where
  "epoch = (1970, 1, 1, 0, 0, 0)"

record reading =
  nv_event_id :: "string option"
  nv_timestamp :: "timestamp option"
  nv_loc_id :: "string option"
  nv_latitude :: "rat option"
  nv_longitude :: "rat option"
  nv_temperature :: "rat option"
  nv_humidity :: "rat option"
  nv_water_level :: "rat option"
  nv_ph :: "rat option"
  nv_nitrogen :: "rat option"
  nv_phosphorus :: "rat option"
  nv_potassium :: "rat option"
  nv_weather_temperature_2m :: "rat option"
  nv_weather_relative_humidity_2m :: "rat option"
  nv_weather_wind_speed_10m :: "rat option"
  nv_weather_wind_direction_10m :: "rat option"
  nv_weather_rain :: "rat option"
  nv_weather_surface_pressure :: "rat option"
  nv_validation_status :: "string option"

text \<open>
  The statements insert no key column: the surrogate keys are generated by the warehouse,
  whose table declarations are not part of the source. Here a new row gets the successor of
  the largest key in its table.
\<close>

type_synonym location_tuple = "string option \<times> rat option \<times> rat option"
type_synonym time_tuple = "timestamp option \<times> nat option \<times> nat option \<times> nat option \<times> nat option \<times> nat option"
type_synonym soil_tuple = "rat option \<times> rat option \<times> rat option \<times> rat option"
type_synonym weather_tuple =
  "rat option \<times> rat option \<times> rat option \<times> rat option \<times> rat option \<times> rat option"

record fact_row =
  evt_id :: "string option"
  location_key :: nat
  weather_key :: nat
  soil_key :: nat
  full_date :: "timestamp option"
  soil_temperature :: "rat option"
  soil_humidity :: "rat option"
  water_level :: "rat option"
  validation_status :: "string option"

text \<open>A dimension row is its surrogate key and its attribute tuple, in the column order of the statement.\<close>

record warehouse =
  dim_location :: "(nat \<times> location_tuple) list"
  dim_time :: "(nat \<times> time_tuple) list"
  dim_soil :: "(nat \<times> soil_tuple) list"
  dim_weather :: "(nat \<times> weather_tuple) list"
  fact_sensor_readings :: "fact_row list"

definition next_key :: "(nat \<times> 'a) list \<Rightarrow> nat" where
  "next_key rows = Suc (foldr max (map fst rows) 0)"

fun with_keys :: "nat \<Rightarrow> 'a list \<Rightarrow> (nat \<times> 'a) list" where
  "with_keys k [] = []"
| "with_keys k (x # xs) = (k, x) # with_keys (Suc k) xs"

definition insert_rows :: "'a list \<Rightarrow> (nat \<times> 'a) list \<Rightarrow> (nat \<times> 'a) list" where
  "insert_rows new rows = rows @ with_keys (next_key rows) new"

subsection \<open>The five statements\<close>

text \<open>\<^verbatim>\<open>dim_location\<close>, lines 80 to 86.\<close>

definition location_of :: "reading \<Rightarrow> location_tuple" where
  "location_of nv = (nv_loc_id nv, nv_latitude nv, nv_longitude nv)"

definition select_dim_location :: "reading list \<Rightarrow> (nat \<times> location_tuple) list \<Rightarrow> location_tuple list" where
  "select_dim_location new_valid_readings dl =
     remdups (map location_of
       (filter (\<lambda>nv. holds (sql_and (is_not_null (nv_loc_id nv))
                                    (sql_not (sql_in (nv_loc_id nv) (map (\<lambda>r. fst (snd r)) dl)))))
               new_valid_readings))"

text \<open>\<^verbatim>\<open>dim_time\<close>, lines 89 to 101. \<^verbatim>\<open>EXTRACT\<close> reads a component of the timestamp.\<close>

definition time_of :: "reading \<Rightarrow> time_tuple" where
  "time_of nv =
     (nv_timestamp nv,
      map_option (\<lambda>(y, mo, d, h, mi, us). y) (nv_timestamp nv),
      map_option (\<lambda>(y, mo, d, h, mi, us). mo) (nv_timestamp nv),
      map_option (\<lambda>(y, mo, d, h, mi, us). d) (nv_timestamp nv),
      map_option (\<lambda>(y, mo, d, h, mi, us). h) (nv_timestamp nv),
      map_option (\<lambda>(y, mo, d, h, mi, us). mi) (nv_timestamp nv))"

definition select_dim_time :: "reading list \<Rightarrow> (nat \<times> time_tuple) list \<Rightarrow> time_tuple list" where
  "select_dim_time new_valid_readings dt =
     remdups (map time_of
       (filter (\<lambda>nv. holds (sql_and (is_not_null (nv_timestamp nv))
                                    (sql_not (sql_in (nv_timestamp nv) (map (\<lambda>r. fst (snd r)) dt)))))
               new_valid_readings))"

text \<open>\<^verbatim>\<open>dim_soil\<close>, lines 104 to 119.\<close>

definition soil_of :: "reading \<Rightarrow> soil_tuple" where
  "soil_of nv = (nv_ph nv, nv_nitrogen nv, nv_phosphorus nv, nv_potassium nv)"

definition soil_match :: "soil_tuple \<Rightarrow> reading \<Rightarrow> sql_bool" where
  "soil_match ds nv =
     (case ds of (ph, nitrogen, phosphorus, potassium) \<Rightarrow>
        sql_all [sql_eq ph (nv_ph nv), sql_eq nitrogen (nv_nitrogen nv),
                 sql_eq phosphorus (nv_phosphorus nv), sql_eq potassium (nv_potassium nv)])"

definition select_dim_soil :: "reading list \<Rightarrow> (nat \<times> soil_tuple) list \<Rightarrow> soil_tuple list" where
  "select_dim_soil new_valid_readings dsl =
     remdups (map soil_of
       (filter (\<lambda>nv. holds (sql_all
                  [sql_not_exists dsl (\<lambda>ds. soil_match (snd ds) nv),
                   is_not_null (nv_ph nv), is_not_null (nv_nitrogen nv),
                   is_not_null (nv_phosphorus nv), is_not_null (nv_potassium nv)]))
               new_valid_readings))"

text \<open>\<^verbatim>\<open>dim_weather\<close>, lines 122 to 148.\<close>

definition weather_of :: "reading \<Rightarrow> weather_tuple" where
  "weather_of nv =
     (nv_weather_temperature_2m nv, nv_weather_relative_humidity_2m nv,
      nv_weather_wind_speed_10m nv, nv_weather_wind_direction_10m nv,
      nv_weather_rain nv, nv_weather_surface_pressure nv)"

definition weather_match :: "weather_tuple \<Rightarrow> reading \<Rightarrow> sql_bool" where
  "weather_match dw nv =
     (case dw of (weather_temperature, weather_humidity, wind_speed, wind_direction, rain,
                  surface_pressure) \<Rightarrow>
        sql_all [sql_eq weather_temperature (nv_weather_temperature_2m nv),
                 sql_eq weather_humidity (nv_weather_relative_humidity_2m nv),
                 sql_eq wind_speed (nv_weather_wind_speed_10m nv),
                 sql_eq wind_direction (nv_weather_wind_direction_10m nv),
                 sql_eq rain (nv_weather_rain nv),
                 sql_eq surface_pressure (nv_weather_surface_pressure nv)])"

definition select_dim_weather :: "reading list \<Rightarrow> (nat \<times> weather_tuple) list \<Rightarrow> weather_tuple list" where
  "select_dim_weather new_valid_readings dwl =
     remdups (map weather_of
       (filter (\<lambda>nv. holds (sql_all
                  [sql_not_exists dwl (\<lambda>dw. weather_match (snd dw) nv),
                   is_not_null (nv_weather_temperature_2m nv)]))
               new_valid_readings))"

text \<open>
  The fact statement, lines 153 to 190: an inner join of the new readings with the four
  dimensions, one output row for every combination of matching dimension rows.
\<close>

definition location_match :: "location_tuple \<Rightarrow> reading \<Rightarrow> sql_bool" where
  "location_match l v =
     (case l of (loc_id, latitude, longitude) \<Rightarrow>
        sql_all [sql_eq (nv_loc_id v) loc_id, sql_eq (nv_latitude v) latitude,
                 sql_eq (nv_longitude v) longitude])"

definition select_fact :: "reading list \<Rightarrow> warehouse \<Rightarrow> fact_row list" where
  "select_fact new_valid_readings wh =
     [\<lparr>evt_id = nv_event_id v, location_key = fst l, weather_key = fst w, soil_key = fst s,
       full_date = fst (snd t), soil_temperature = nv_temperature v,
       soil_humidity = nv_humidity v, water_level = nv_water_level v,
       validation_status = nv_validation_status v\<rparr>.
        v \<leftarrow> new_valid_readings,
        l \<leftarrow> dim_location wh, holds (location_match (snd l) v),
        w \<leftarrow> dim_weather wh, holds (weather_match (snd w) v),
        s \<leftarrow> dim_soil wh, holds (soil_match (snd s) v),
        t \<leftarrow> dim_time wh, holds (sql_eq (nv_timestamp v) (fst (snd t)))]"

subsection \<open>One run of the job\<close>

text \<open>
  Which statements fail is an input: \<open>failing\<close> is the set of the stages that raise in this
  run. A statement that raises is taken to change nothing.
  \<^verbatim>\<open>execute_sql_query\<close> catches the exception, prints it and returns; the watermark read
  has its own handler, which falls back to the epoch.
\<close>

datatype stage = WatermarkRead | DimLocation | DimTime | DimSoil | DimWeather | FactInsert

definition execute_sql_query ::
  "stage set \<Rightarrow> stage \<Rightarrow> (warehouse \<Rightarrow> warehouse) \<Rightarrow> warehouse \<Rightarrow> warehouse"
where
  "execute_sql_query failing st query wh = (if st \<in> failing then wh else query wh)"

definition read_last_ts :: "stage set \<Rightarrow> warehouse \<Rightarrow> timestamp" where
  "read_last_ts failing wh =
     (if WatermarkRead \<in> failing then epoch
      else case sql_max (map full_date (fact_sensor_readings wh)) of
             None \<Rightarrow> epoch
           | Some last_ts \<Rightarrow> last_ts)"

definition new_data :: "stage set \<Rightarrow> reading list \<Rightarrow> warehouse \<Rightarrow> reading list" where
  "new_data failing valid_readings wh =
     filter (\<lambda>nv. holds (sql_gt (nv_timestamp nv) (Some (read_last_ts failing wh)))) valid_readings"

definition load_dim_location :: "reading list \<Rightarrow> warehouse \<Rightarrow> warehouse" where
  "load_dim_location new wh =
     wh\<lparr>dim_location := insert_rows (select_dim_location new (dim_location wh)) (dim_location wh)\<rparr>"

definition load_dim_time :: "reading list \<Rightarrow> warehouse \<Rightarrow> warehouse" where
  "load_dim_time new wh =
     wh\<lparr>dim_time := insert_rows (select_dim_time new (dim_time wh)) (dim_time wh)\<rparr>"

definition load_dim_soil :: "reading list \<Rightarrow> warehouse \<Rightarrow> warehouse" where
  "load_dim_soil new wh =
     wh\<lparr>dim_soil := insert_rows (select_dim_soil new (dim_soil wh)) (dim_soil wh)\<rparr>"

definition load_dim_weather :: "reading list \<Rightarrow> warehouse \<Rightarrow> warehouse" where
  "load_dim_weather new wh =
     wh\<lparr>dim_weather := insert_rows (select_dim_weather new (dim_weather wh)) (dim_weather wh)\<rparr>"

definition load_fact :: "reading list \<Rightarrow> warehouse \<Rightarrow> warehouse" where
  "load_fact new wh =
     wh\<lparr>fact_sensor_readings := fact_sensor_readings wh @ select_fact new wh\<rparr>"

definition run_cycle :: "stage set \<Rightarrow> reading list \<Rightarrow> warehouse \<Rightarrow> warehouse" where
  "run_cycle failing valid_readings wh =
     (let new = new_data failing valid_readings wh in
      if new = [] then wh
      else
        (let wh1 = execute_sql_query failing DimLocation (load_dim_location new) wh;
             wh2 = execute_sql_query failing DimTime (load_dim_time new) wh1;
             wh3 = execute_sql_query failing DimSoil (load_dim_soil new) wh2;
             wh4 = execute_sql_query failing DimWeather (load_dim_weather new) wh3
         in execute_sql_query failing FactInsert (load_fact new) wh4))"

definition empty_warehouse :: warehouse where
  "empty_warehouse =
     \<lparr>dim_location = [], dim_time = [], dim_soil = [], dim_weather = [], fact_sensor_readings = []\<rparr>"




section \<open>Concrete inputs\<close>

text \<open>Readings, alerts and warehouses on which the theorems below are run.\<close>

definition critical_alert :: alert where
  "critical_alert = \<lparr>alert_type = ''Sensor Failure'', priority = CRITICAL,
     description = ''Critical sensor issue detected at loc_1: sensor_failure''\<rparr>"

definition medium_alert :: alert where
  "medium_alert = \<lparr>alert_type = ''High Water Level'', priority = MEDIUM,
     description = ''High water level: 2.80m at loc_1''\<rparr>"


text \<open>A clock that advances by one second from one reading to the next.\<close>

definition clock_1s :: "nat \<Rightarrow> int" where
  "clock_1s n = seconds (int n)"

text \<open>A reading of \<^verbatim>\<open>loc_1\<close> with every quantity in range and a temperature above 35.\<close>

definition optimal_sensors :: dict where
  "optimal_sensors =
     [(''temperature'', JFloat 38), (''humidity'', JFloat 60), (''water_level'', JFloat 2),
      (''nitrogen'', JInt 100), (''phosphorus'', JInt 60), (''potassium'', JInt 60),
      (''ph'', JFloat 7)]"

definition reading_with :: "dict \<Rightarrow> dict" where
  "reading_with sensor_data =
     [(''event_id'', JStr ''evt_0123456789ab''),
      (''timestamp'', JStr ''2025-01-01T00:00:00.000000Z''),
      (''loc_id'', JStr ''loc_1''),
      (''location'', JObj [(''latitude'', JFloat 30), (''longitude'', JFloat 31)]),
      (''sensor_data'', JObj sensor_data),
      (''weather_data'', JObj [(''temperature_2m'', JFloat (51 / 2)), (''rain'', JInt 0)])]"

definition hot_reading :: dict where
  "hot_reading = reading_with optimal_sensors"

text \<open>The same reading after a power fluctuation has put the text \<^verbatim>\<open>NULL\<close> in place of the temperature.\<close>

definition null_temperature_reading :: dict where
  "null_temperature_reading =
     reading_with (AList.update ''temperature'' (JStr ''NULL'') optimal_sensors)"

text \<open>Readings of \<^verbatim>\<open>loc_1\<close>: one without a \<^verbatim>\<open>ph\<close> entry, one with a pH just above its range.\<close>

definition absent_ph_reading :: dict where
  "absent_ph_reading = reading_with (AList.delete ''ph'' optimal_sensors)"


text \<open>
  Rows of \<^verbatim>\<open>valid_readings\<close>: readings \<open>a\<close>, \<open>b\<close> and \<open>c\<close> taken five minutes apart,
  \<open>b\<close> at another location than \<open>a\<close> and \<open>c\<close>; a reading without a rain value; a reading
  without a pH; and reading \<open>a\<close>'s location reported later with another longitude.
\<close>

definition reading_a :: reading where
  "reading_a =
     \<lparr>nv_event_id = Some ''evt_a'', nv_timestamp = Some (2025, 1, 1, 0, 0, 0),
      nv_loc_id = Some ''loc_2'', nv_latitude = Some 30, nv_longitude = Some 31,
      nv_temperature = Some 25, nv_humidity = Some 60, nv_water_level = Some 2,
      nv_ph = Some 7, nv_nitrogen = Some 100, nv_phosphorus = Some 60, nv_potassium = Some 60,
      nv_weather_temperature_2m = Some 26, nv_weather_relative_humidity_2m = Some 50,
      nv_weather_wind_speed_10m = Some 3, nv_weather_wind_direction_10m = Some 90,
      nv_weather_rain = Some 0, nv_weather_surface_pressure = Some 1010,
      nv_validation_status = Some ''VALID''\<rparr>"



definition rainless_reading :: reading where
  "rainless_reading = reading_a\<lparr>nv_weather_rain := None\<rparr>"






text \<open>
  The tables these runs are expected to leave, written out: the rows of the dimensions that
  the readings above give rise to, and the fact row of a reading taken at minute \<open>mi\<close>.
\<close>

definition loc_2_row :: "nat \<times> location_tuple" where
  "loc_2_row = (1, Some ''loc_2'', Some 30, Some 31)"


definition time_row :: "nat \<Rightarrow> nat \<Rightarrow> nat \<times> time_tuple" where
  "time_row k mi = (k, Some (2025, 1, 1, 0, mi, 0), Some 2025, Some 1, Some 1, Some 0, Some mi)"

definition soil_row :: "nat \<times> soil_tuple" where
  "soil_row = (1, Some 7, Some 100, Some 60, Some 60)"

definition weather_row :: "nat \<Rightarrow> rat option \<Rightarrow> nat \<times> weather_tuple" where
  "weather_row k rain = (k, Some 26, Some 50, Some 3, Some 90, rain, Some 1010)"







definition rainless_once_rows :: warehouse where
  "rainless_once_rows =
     \<lparr>dim_location = [loc_2_row], dim_time = [time_row 1 0], dim_soil = [soil_row],
      dim_weather = [weather_row 1 None], fact_sensor_readings = []\<rparr>"

definition rainless_twice_rows :: warehouse where
  "rainless_twice_rows =
     \<lparr>dim_location = [loc_2_row], dim_time = [time_row 1 0], dim_soil = [soil_row],
      dim_weather = [weather_row 1 None, weather_row 2 None], fact_sensor_readings = []\<rparr>"

section \<open>Throttling\<close>

lemma critical_always_sent:
  "priority a = CRITICAL \<Longrightarrow> fst (check_and_send_alert a loc now s) = True"
  by (simp add: check_and_send_alert_def check_and_send_alert_cfg_def Let_def)

lemma repeat_critical:
  "priority a = CRITICAL \<Longrightarrow> fst (repeat_alert a loc nows s) = replicate (length nows) True"
proof (induction nows arbitrary: s)
  case Nil
  then show ?case by simp
next
  case (Cons now later)
  obtain sent s' where step: "check_and_send_alert a loc now s = (sent, s')"
    by (cases "check_and_send_alert a loc now s")
  with critical_always_sent [OF Cons.prems, of loc now s] have "sent" by simp
  moreover from Cons.IH [OF Cons.prems, of s']
  have "fst (repeat_alert a loc later s') = replicate (length later) True" .
  ultimately show ?case using step by (cases "repeat_alert a loc later s'") simp
qed

text \<open>
  C3. Starting from the empty throttle state, a CRITICAL alert repeated for one key is sent at
  every call, whatever the clock readings \<open>nows\<close> are (so also for 100 readings within one
  second). A MEDIUM alert, under the configured threshold 1 and interval of 5 minutes, is sent
  at \<open>t0\<close>, suppressed at any \<open>t1\<close> less than 5 minutes after \<open>t0\<close>, and sent again at a
  \<open>t2\<close> that is 5 minutes or more after \<open>t0\<close>, such as 6 minutes.
\<close>

theorem throttle_scenarios:
  "(priority a = CRITICAL \<longrightarrow>
      fst (repeat_alert a loc nows initial_alert_state) = replicate (length nows) True)
   \<and> (priority b = MEDIUM \<and> t1 - t0 < minutes 5 \<and> minutes 5 \<le> t2 - t0 \<longrightarrow>
      fst (repeat_alert b loc [t0, t1, t2] initial_alert_state) = [True, False, True])"
proof (intro conjI impI)
  assume "priority a = CRITICAL"
  then show "fst (repeat_alert a loc nows initial_alert_state) = replicate (length nows) True"
    by (rule repeat_critical)
next
  assume h: "priority b = MEDIUM \<and> t1 - t0 < minutes 5 \<and> minutes 5 \<le> t2 - t0"
  then show "fst (repeat_alert b loc [t0, t1, t2] initial_alert_state) = [True, False, True]"
    by (simp add: check_and_send_alert_def check_and_send_alert_cfg_def Let_def
        initial_alert_state_def ALERT_INTERVAL_def CONSECUTIVE_RECORDS_THRESHOLD_def)
qed

theorem throttle_scenarios_witness:
  "priority critical_alert = CRITICAL
   \<and> length (map int [0..<100]) = 100
   \<and> list_all (\<lambda>t. 0 \<le> t \<and> t < seconds 1) (map int [0..<100])
   \<and> fst (repeat_alert critical_alert ''loc_1'' (map int [0..<100]) initial_alert_state)
       = replicate 100 True
   \<and> priority medium_alert = MEDIUM
   \<and> minutes 4 - 0 < minutes 5 \<and> minutes 5 \<le> minutes 6 - 0
   \<and> fst (repeat_alert medium_alert ''loc_1'' [0, minutes 4, minutes 6] initial_alert_state)
       = [True, False, True]"
  using throttle_scenarios [of critical_alert "''loc_1''" "map int [0..<100]" medium_alert
                               "minutes 4" 0 "minutes 6"]
  by (simp add: critical_alert_def medium_alert_def minutes_def seconds_def list_all_iff)





section \<open>Validation\<close>

lemma none_is_extreme: "py_in JNull extreme_values"
  by (simp add: py_in_def extreme_values_def py_eq_def)


lemma range_check_shape:
  "range_check n lo hi x (es, ws) = (es', ws') \<Longrightarrow>
     (es' = es \<or> es' = es @ [''sensor_data:'' @ n @ ''_out_of_range''])
     \<and> (\<exists>w. ws' = ws @ w)"
  by (auto simp: range_check_def Let_def split: if_splits)

text \<open>What one pass of the loop can do to the errors, the warnings and the quantity map.\<close>

lemma validate_sensor_shape:
  assumes "validate_sensor py (n, lo, hi) (sd, es, ws) = (sd', es', ws')"
  shows "(es' = es
          \<or> es' = es @ [''sensor_data:'' @ n @ ''_extreme_value'']
          \<or> es' = es @ [''sensor_data:'' @ n @ ''_invalid_type'']
          \<or> es' = es @ [''sensor_data:'' @ n @ ''_out_of_range''])
       \<and> (\<exists>w. ws' = ws @ w)
       \<and> (\<forall>k. k \<noteq> n \<longrightarrow> py_get sd' k = py_get sd k)"
proof -
  let ?val = "py_get sd n"
  show ?thesis
  proof (cases "py_in ?val extreme_values")
    case True
    with assms show ?thesis by (simp add: validate_sensor_def Let_def)
  next
    case notext: False
    then have notnull: "?val \<noteq> JNull" using none_is_extreme by auto
    show ?thesis
    proof (cases "num_of ?val")
      case (Some x)
      obtain e1 w1 where rc: "range_check n lo hi x (es, ws) = (e1, w1)"
        by (cases "range_check n lo hi x (es, ws)")
      with assms notext notnull Some have "sd' = sd" "es' = e1" "ws' = w1"
        by (simp_all add: validate_sensor_def Let_def)
      with range_check_shape [OF rc] show ?thesis by auto
    next
      case None
      show ?thesis
      proof (cases "case ?val of JStr s \<Rightarrow> float_of py s | _ \<Rightarrow> None")
        case nofloat: None
        with assms notext notnull None show ?thesis
          by (simp add: validate_sensor_def Let_def)
      next
        case (Some c)
        obtain e1 w1 where rc: "range_check n lo hi c
            (es, ws @ [''sensor_data:'' @ n @ ''_type_converted'']) = (e1, w1)"
          by (cases "range_check n lo hi c (es, ws @ [''sensor_data:'' @ n @ ''_type_converted''])")
        with assms notext notnull None Some
        have "sd' = AList.update n (JFloat c) sd" "es' = e1" "ws' = w1"
          by (simp_all add: validate_sensor_def Let_def)
        with range_check_shape [OF rc] show ?thesis
          by (auto simp: py_get_def update_conv')
      qed
    qed
  qed
qed


text \<open>The same for the whole loop.\<close>


lemma validate_sensors_step:
  "validate_sensors py (item # rs) st = validate_sensors py rs (validate_sensor py item st)"
  by (simp add: validate_sensors_def)

lemma validate_sensors_errors:
  "validate_sensors py rs (sd, es, ws) = (sd', es', ws') \<Longrightarrow>
     set es' \<subseteq> set es \<union> (\<Union>n \<in> fst ` set rs. live_codes n)"
proof (induction rs arbitrary: sd es ws)
  case Nil
  then show ?case by (simp add: validate_sensors_def)
next
  case (Cons item rs)
  obtain n lo hi where item: "item = (n, lo, hi)" by (cases item) auto
  obtain sd1 es1 ws1 where step: "validate_sensor py (n, lo, hi) (sd, es, ws) = (sd1, es1, ws1)"
    by (cases "validate_sensor py (n, lo, hi) (sd, es, ws)") auto
  from validate_sensor_shape [OF step] have "set es1 \<subseteq> set es \<union> live_codes n"
    by (auto simp: live_codes_def)
  moreover from Cons.prems item step
  have "validate_sensors py rs (sd1, es1, ws1) = (sd', es', ws')"
    by (simp add: validate_sensors_step)
  from Cons.IH [OF this] have "set es' \<subseteq> set es1 \<union> (\<Union>n \<in> fst ` set rs. live_codes n)" .
  ultimately show ?case using item by auto
qed

lemma live_code_not_missing:
  "e \<in> live_codes n \<Longrightarrow> e \<noteq> ''sensor_data:'' @ q @ ''_missing''"
proof
  assume e: "e \<in> live_codes n" and eq: "e = ''sensor_data:'' @ q @ ''_missing''"
  from eq have "last e = CHR ''g''" by simp
  moreover from e have "last e = CHR ''e''" by (auto simp: live_codes_def)
  ultimately show False by simp
qed

text \<open>The errors that \<^verbatim>\<open>validate_record\<close> returns.\<close>

lemma range_names:
  "map_of EXPECTED_RANGES_PER_LOCATION loc = Some ranges \<Longrightarrow>
     fst ` set ranges = set sensor_names
     \<and> distinct (map fst ranges)"
  by (auto simp: EXPECTED_RANGES_PER_LOCATION_def sensor_names_def split: if_splits)

lemma top_level_errors_prefix: "e \<in> set (top_level_errors data) \<Longrightarrow> hd e = CHR ''m''"
  by (auto simp: top_level_errors_def)

text \<open>
  \<^verbatim>\<open>validate_record\<close> on a record whose location is in the table and whose quantity map is
  a non-empty dictionary: the loop runs, then the cross-check.
\<close>

lemma validate_record_loop:
  assumes "py_get data ''loc_id'' = JStr loc"
    and "map_of EXPECTED_RANGES_PER_LOCATION loc = Some ranges"
    and "py_get data ''sensor_data'' = JObj sd" and "sd \<noteq> []"
    and "validate_sensors py ranges (sd, top_level_errors data, []) = (sd1, es1, ws1)"
  shows "validate_record py data =
           (case cross_validate py data sd1 ws1 of
              Inl e \<Rightarrow> Inl e
            | Inr ws' \<Rightarrow>
                Inr (if es1 \<noteq> [] then INVALID else if ws' \<noteq> [] then WARNING else VALID,
                     es1, ws', AList.update ''sensor_data'' (JObj sd1) data))"
proof -
  from assms(2) have "loc \<noteq> []"
    by (auto simp: EXPECTED_RANGES_PER_LOCATION_def)
  with assms show ?thesis
    by (simp add: validate_record_def Let_def)
qed

lemma validate_record_errors:
  assumes "validate_record py data = Inr (st, es, ws, d')"
  shows "\<forall>e \<in> set es. hd e \<noteq> CHR ''s''
           \<or> (\<exists>n \<in> set sensor_names. e \<in> live_codes n)"
proof (cases "truthy (py_get data ''loc_id'')")
  case False
  with assms show ?thesis by (auto simp: validate_record_def Let_def)
next
  case loc_ok: True
  let ?look = "case py_get data ''loc_id'' of JStr s \<Rightarrow> map_of EXPECTED_RANGES_PER_LOCATION s
               | _ \<Rightarrow> None"
  show ?thesis
  proof (cases ?look)
    case None
    with assms loc_ok show ?thesis
      by (auto simp: validate_record_def Let_def split: jval.splits)
  next
    case (Some ranges)
    then obtain loc where loc: "py_get data ''loc_id'' = JStr loc"
        "map_of EXPECTED_RANGES_PER_LOCATION loc = Some ranges"
      by (auto split: jval.splits)
    show ?thesis
    proof (cases "truthy (py_get data ''sensor_data'')")
      case False
      with assms loc_ok loc have "es = top_level_errors data @ [''missing_sensor_data'']"
        by (auto simp: validate_record_def Let_def)
      then show ?thesis using top_level_errors_prefix [of _ data] by auto
    next
      case sd_ok: True
      with assms loc_ok loc obtain sd where sd: "py_get data ''sensor_data'' = JObj sd"
        by (auto simp: validate_record_def Let_def split: jval.splits)
      with sd_ok have ne: "sd \<noteq> []" by simp
      obtain sd1 es1 ws1 where
        loop: "validate_sensors py ranges (sd, top_level_errors data, []) = (sd1, es1, ws1)"
        by (cases "validate_sensors py ranges (sd, top_level_errors data, [])") auto
      from assms validate_record_loop [OF loc sd ne loop] have "es = es1"
        by (auto split: sum.splits)
      with validate_sensors_errors [OF loop] range_names [OF loc(2)]
        top_level_errors_prefix [of _ data]
      show ?thesis by fastforce
    qed
  qed
qed


lemma live_codes_classified:
  "list_all (\<lambda>n. classify_error (''sensor_data:'' @ n @ ''_extreme_value'') \<noteq> Some ''sensor_disconnected''
                \<and> classify_error (''sensor_data:'' @ n @ ''_invalid_type'') \<noteq> Some ''sensor_disconnected''
                \<and> classify_error (''sensor_data:'' @ n @ ''_out_of_range'') \<noteq> Some ''sensor_disconnected'')
            sensor_names"
  by code_simp

lemma live_code_not_disconnected:
  assumes "n \<in> set sensor_names" and "e \<in> live_codes n"
  shows "classify_error e \<noteq> Some ''sensor_disconnected''"
  using assms live_codes_classified unfolding list_all_iff live_codes_def by blast

lemma error_types_member:
  "c \<in> set (error_types es) \<Longrightarrow> \<exists>e \<in> set es. prefix ''sensor_data'' e \<and> classify_error e = Some c"
  by (auto simp: error_types_def List.map_filter_def)


text \<open>
  C10. No pass of the loop appends a \<^verbatim>\<open>sensor_data:<quantity>_missing\<close> error, whatever the
  range table and the quantity map are: an absent quantity reads as \<^verbatim>\<open>None\<close>, which is
  among the sentinels tested first. So no error list that \<^verbatim>\<open>validate_record\<close> returns
  holds such an error, and the classification that \<^verbatim>\<open>handle_alerts\<close> derives from a
  returned error list never contains \<^verbatim>\<open>sensor_disconnected\<close>.
\<close>

theorem missing_branch_unreachable:
  "(\<forall>q. ''sensor_data:'' @ q @ ''_missing'' \<notin> set (fst (snd (validate_sensors py ranges (sd, [], [])))))
   \<and> (validate_record py data = Inr (st, es, ws, d') \<longrightarrow>
        (\<forall>q. ''sensor_data:'' @ q @ ''_missing'' \<notin> set es)
        \<and> ''sensor_disconnected'' \<notin> set (error_types es))"
proof (intro conjI impI allI)
  fix q
  obtain sd1 es1 ws1 where loop: "validate_sensors py ranges (sd, [], []) = (sd1, es1, ws1)"
    by (cases "validate_sensors py ranges (sd, [], [])") auto
  from validate_sensors_errors [OF loop] live_code_not_missing [of _ _ q]
  have "''sensor_data:'' @ q @ ''_missing'' \<notin> set es1" by fastforce
  with loop show "''sensor_data:'' @ q @ ''_missing'' \<notin> set (fst (snd (validate_sensors py ranges (sd, [], []))))"
    by simp
next
  fix q
  assume ret: "validate_record py data = Inr (st, es, ws, d')"
  show "''sensor_data:'' @ q @ ''_missing'' \<notin> set es"
  proof
    assume mem: "''sensor_data:'' @ q @ ''_missing'' \<in> set es"
    with validate_record_errors [OF ret]
    have "\<exists>n \<in> set sensor_names. ''sensor_data:'' @ q @ ''_missing'' \<in> live_codes n"
      by fastforce
    with live_code_not_missing [of "''sensor_data:'' @ q @ ''_missing''" _ q] show False by blast
  qed
next
  assume ret: "validate_record py data = Inr (st, es, ws, d')"
  show "''sensor_disconnected'' \<notin> set (error_types es)"
  proof
    assume "''sensor_disconnected'' \<in> set (error_types es)"
    from error_types_member [OF this] obtain e where
      e: "e \<in> set es" "prefix ''sensor_data'' e" "classify_error e = Some ''sensor_disconnected''"
      by blast
    from e(2) have "hd e = CHR ''s''" by (auto simp: prefix_def)
    with validate_record_errors [OF ret] e(1)
    obtain n where "n \<in> set sensor_names" "e \<in> live_codes n" by blast
    with live_code_not_disconnected e(3) show False by blast
  qed
qed

theorem missing_branch_unreachable_witness:
  "validate_record decimal_builtins absent_ph_reading
     = Inr (INVALID, [''sensor_data:ph_extreme_value''], [], absent_ph_reading)
   \<and> map_of (AList.delete ''ph'' optimal_sensors) ''ph'' = None
   \<and> (\<forall>q. ''sensor_data:'' @ q @ ''_missing'' \<notin> set [''sensor_data:ph_extreme_value''])
   \<and> ''sensor_disconnected'' \<notin> set (error_types [''sensor_data:ph_extreme_value''])"
proof -
  have run: "validate_record decimal_builtins absent_ph_reading
     = Inr (INVALID, [''sensor_data:ph_extreme_value''], [], absent_ph_reading)"
    by code_simp
  have absent: "map_of (AList.delete ''ph'' optimal_sensors) ''ph'' = None"
    by code_simp
  from missing_branch_unreachable [of decimal_builtins "[]" "[]" absent_ph_reading INVALID
      "[''sensor_data:ph_extreme_value'']" "[]" absent_ph_reading] run absent
  show ?thesis by blast
qed












section \<open>The batch summary\<close>

text \<open>
  C1. A textual sentinel is recorded as an extreme-value error by the loop, but when the
  quantity is \<^verbatim>\<open>temperature\<close> and the weather data carry \<^verbatim>\<open>temperature_2m\<close>, the
  cross-check subtracts a number from the text: \<^verbatim>\<open>validate_record\<close> raises instead of
  returning INVALID, and the handler files the reading as an error record without alerts.
\<close>

theorem textual_sentinel_raises:
  "py_in (py_get (AList.update ''temperature'' (JStr ''NULL'') optimal_sensors) ''temperature'') extreme_values
   \<and> validate_record decimal_builtins null_temperature_reading = Inl TypeError
   \<and> fst (lambda_handler decimal_builtins clock_1s False
             [Decoded (JObj null_temperature_reading)] initial_alert_state)
       = \<lparr>processed_records = 0, error_records = 1, total_alerts_generated = 0\<rparr>"
  by code_simp

lemma send_alerts_counts:
  "alert_count (snd (send_alerts clock loc annotate hs alerts)) = alert_count hs
   \<and> length (published (snd (send_alerts clock loc annotate hs alerts)))
       \<le> length (published hs) + length alerts"
proof (induction alerts arbitrary: hs)
  case Nil
  then show ?case by simp
next
  case (Cons a alerts)
  obtain sent s' where step: "check_and_send_alert a loc (clock (tick hs)) (throttle hs) = (sent, s')"
    by (cases "check_and_send_alert a loc (clock (tick hs)) (throttle hs)")
  define hs' where "hs' = hs\<lparr>throttle := s', tick := Suc (tick hs),
      published := (if sent then published hs @ [(loc, a)] else published hs)\<rparr>"
  have run: "send_alerts clock loc annotate hs (a # alerts)
      = (if sent \<and> \<not> annotate then (False, hs') else send_alerts clock loc annotate hs' alerts)"
    by (simp add: step hs'_def Let_def)
  have "alert_count hs' = alert_count hs" "length (published hs') \<le> Suc (length (published hs))"
    by (simp_all add: hs'_def)
  with Cons.IH [of hs'] run show ?case by auto
qed

lemma process_record_counts:
  "alert_count (process_record py clock hs r) = alert_count hs + length (candidate_alerts py r)
   \<and> length (published (process_record py clock hs r))
       \<le> length (published hs) + length (candidate_alerts py r)"
proof (cases "\<exists>data. r = Decoded (JObj data)")
  case False
  then have "process_record py clock hs r = hs\<lparr>error_count := error_count hs + 1\<rparr>"
    by (auto simp: process_record_def split: kinesis_record.splits jval.splits)
  moreover from False have "candidate_alerts py r = []"
    by (auto simp: candidate_alerts_def split: kinesis_record.splits jval.splits)
  ultimately show ?thesis by simp
next
  case True
  then obtain data where r: "r = Decoded (JObj data)" by blast
  show ?thesis
  proof (cases "validate_record py data")
    case (Inl e)
    with r show ?thesis by (simp add: process_record_def candidate_alerts_def)
  next
    case (Inr res)
    obtain status errors warnings data' where res: "res = (status, errors, warnings, data')"
      by (cases res) auto
    show ?thesis
    proof (cases "handle_alerts py data' status errors")
      case (Inl e)
      with r Inr res show ?thesis by (simp add: process_record_def candidate_alerts_def)
    next
      case (Inr alerts)
      define hs1 where "hs1 = hs\<lparr>alert_count := alert_count hs + length alerts\<rparr>"
      define loc where "loc = fstr py (if has_key data' ''loc_id'' then py_get data' ''loc_id''
                                       else JStr ''unknown'')"
      obtain ok hs2 where loop: "send_alerts clock loc (can_annotate data') hs1 alerts = (ok, hs2)"
        by (cases "send_alerts clock loc (can_annotate data') hs1 alerts")
      from send_alerts_counts [of clock loc "can_annotate data'" hs1 alerts] loop
      have "alert_count hs2 = alert_count hs + length alerts"
        "length (published hs2) \<le> length (published hs) + length alerts"
        by (simp_all add: hs1_def)
      moreover from r \<open>validate_record py data = Inr res\<close> res Inr loop
      have "process_record py clock hs r
              = (if ok then hs2\<lparr>processed_count := processed_count hs2 + 1\<rparr>
                 else hs2\<lparr>error_count := error_count hs2 + 1\<rparr>)"
        by (simp add: process_record_def Let_def hs1_def loc_def)
      moreover from r \<open>validate_record py data = Inr res\<close> res Inr
      have "candidate_alerts py r = alerts"
        by (simp add: candidate_alerts_def)
      ultimately show ?thesis by simp
    qed
  qed
qed

lemma process_all_counts:
  "alert_count (foldl (process_record py clock) hs records)
     = alert_count hs + (\<Sum>r\<leftarrow>records. length (candidate_alerts py r))
   \<and> length (published (foldl (process_record py clock) hs records))
       \<le> length (published hs) + (\<Sum>r\<leftarrow>records. length (candidate_alerts py r))"
proof (induction records arbitrary: hs)
  case Nil
  then show ?case by simp
next
  case (Cons r records)
  from Cons.IH [of "process_record py clock hs r"] process_record_counts [of py clock hs r]
  show ?case by simp
qed


text \<open>
  C9 (as amended). The field \<^verbatim>\<open>total_alerts_generated\<close> of the response is the number of
  candidate alerts that \<^verbatim>\<open>handle_alerts\<close> derived over the batch, whether throttling let
  them through or not; the number of alerts handed to \<^verbatim>\<open>send_alert\<close> is at most that.
\<close>

theorem alerts_field_counts_candidates:
  "total_alerts_generated (fst (lambda_handler py clock cleanup records s))
     = (\<Sum>r\<leftarrow>records. length (candidate_alerts py r))
   \<and> length (snd (snd (lambda_handler py clock cleanup records s)))
       \<le> total_alerts_generated (fst (lambda_handler py clock cleanup records s))"
proof (cases cleanup)
  case True
  with process_all_counts [of py clock
      "\<lparr>throttle = cleanup_alert_state (clock 0) s, tick = 1, published = [],
        processed_count = 0, error_count = 0, alert_count = 0\<rparr>" records]
  show ?thesis by (simp add: lambda_handler_def Let_def)
next
  case False
  with process_all_counts [of py clock
      "\<lparr>throttle = s, tick = 0, published = [],
        processed_count = 0, error_count = 0, alert_count = 0\<rparr>" records]
  show ?thesis by (simp add: lambda_handler_def Let_def)
qed


text \<open>
  Two equal readings one second apart derive one High Temperature candidate each; the second is
  throttled. The field reports 2 where one alert was sent.
\<close>

theorem alerts_field_exceeds_emitted:
  "total_alerts_generated (fst (lambda_handler decimal_builtins clock_1s False
        [Decoded (JObj hot_reading), Decoded (JObj hot_reading)] initial_alert_state)) = 2
   \<and> length (snd (snd (lambda_handler decimal_builtins clock_1s False
        [Decoded (JObj hot_reading), Decoded (JObj hot_reading)] initial_alert_state))) = 1"
  by code_simp

section \<open>The warehouse load\<close>

subsection \<open>When a condition is true\<close>





















subsection \<open>The runs on the concrete tables\<close>







lemma rainless_once_value: "run_cycle {} [rainless_reading] empty_warehouse = rainless_once_rows"
  by code_simp

lemma rainless_twice_value: "run_cycle {} [rainless_reading] rainless_once_rows = rainless_twice_rows"
  by code_simp

subsection \<open>Extraction and the watermark\<close>






subsection \<open>A failing statement\<close>






subsection \<open>Running the job twice\<close>

text \<open>
  C2. A reading whose rain value is \<^verbatim>\<open>NULL\<close> passes the \<^verbatim>\<open>dim_weather\<close> statement, which
  tests only the temperature for \<^verbatim>\<open>NULL\<close>: the comparison with the row inserted before is
  unknown, so \<^verbatim>\<open>NOT EXISTS\<close> holds again. The reading never joins the fact table, stays
  above the watermark, and the second run inserts a second, equal \<^verbatim>\<open>dim_weather\<close> row.
\<close>

theorem second_run_adds_weather_row:
  "run_cycle {} [rainless_reading] empty_warehouse = rainless_once_rows
   \<and> run_cycle {} [rainless_reading] (run_cycle {} [rainless_reading] empty_warehouse)
       = rainless_twice_rows
   \<and> length (dim_weather rainless_once_rows) = 1
   \<and> length (dim_weather rainless_twice_rows) = 2
   \<and> map snd (dim_weather rainless_twice_rows)
       = [weather_of rainless_reading, weather_of rainless_reading]"
  unfolding rainless_once_value rainless_twice_value by code_simp

subsection \<open>Dimension upserts\<close>




















end
